theory Spec2Isabelle
  imports Complex_Main
begin

section \<open>Animated particle graph: data model\<close>

text \<open>
  The component \<open>Graph\<close> keeps an array of nodes, a distinguished pointer node
  (\<open>id = -1\<close>) that is the last element of that array, and a handful of closure
  variables for pointer handling. JavaScript numbers are modelled as real numbers
  (finite values, exact arithmetic); the one place where the code produces \<open>NaN\<close>
  is \<open>parseInt\<close> in \<open>hexToRgb\<close>, modelled there by \<open>None\<close>.

  A node is \<open>SimulationNodeDatum & {id, radius?, color?}\<close>. Every node of the program is
  created with \<open>x\<close>, \<open>y\<close>, \<open>radius\<close> and \<open>color\<close> set, and the tick handler reads the first
  three with a non-null assertion (\<open>n.x!\<close>), so they are plain fields here. The velocity
  is read through \<open>n.vx ?? 0\<close> and the pin through \<open>n.fx != null\<close>: these four are
  optional, \<open>None\<close> standing for \<open>null\<close>/\<open>undefined\<close>. The field \<open>id\<close> is called
  \<open>id_n\<close>, since \<open>id\<close> is the identity function of HOL.
\<close>

record node =
  id_n :: int
  x :: real
  y :: real
  vx :: "real option"
  vy :: "real option"
  fx :: "real option"
  fy :: "real option"
  radius :: real
  color :: string

text \<open>\<open>v ?? 0\<close>\<close>

definition orZero :: "real option \<Rightarrow> real" where
  "orZero v = (case v of None \<Rightarrow> 0 | Some w \<Rightarrow> w)"

section \<open>The tick handler\<close>

text \<open>
  The body of the loop \<open>for (const n of nodes)\<close> in \<open>ticked\<close>, split as the source
  lays it out: the pinned pointer node is forced onto its pin and skipped
  (\<open>continue\<close>); every other node is clamped and reflected on the X axis, then on
  the Y axis.
\<close>

definition reflectX :: "real \<Rightarrow> node \<Rightarrow> node" where
  "reflectX width n =
     (if x n \<le> radius n then
        n\<lparr>x := radius n, vx := Some \<bar>orZero (vx n)\<bar>\<rparr>
      else if x n \<ge> width - radius n then
        n\<lparr>x := width - radius n, vx := Some (- \<bar>orZero (vx n)\<bar>)\<rparr>
      else n)"

definition reflectY :: "real \<Rightarrow> node \<Rightarrow> node" where
  "reflectY height n =
     (if y n \<le> radius n then
        n\<lparr>y := radius n, vy := Some \<bar>orZero (vy n)\<bar>\<rparr>
      else if y n \<ge> height - radius n then
        n\<lparr>y := height - radius n, vy := Some (- \<bar>orZero (vy n)\<bar>)\<rparr>
      else n)"

definition bounce :: "real \<Rightarrow> real \<Rightarrow> node \<Rightarrow> node" where
  "bounce width height n = reflectY height (reflectX width n)"

definition tickNode :: "real \<Rightarrow> real \<Rightarrow> node \<Rightarrow> node" where
  "tickNode width height n =
     (if id_n n = - 1 then
        (case fx n of
           None \<Rightarrow> bounce width height n
         | Some px \<Rightarrow>
             (case fy n of
                None \<Rightarrow> bounce width height n
              | Some py \<Rightarrow> n\<lparr>vx := Some 0, vy := Some 0, x := px, y := py\<rparr>))
      else bounce width height n)"

text \<open>
  \<open>ticked\<close> runs the body once on every element of the array, in order. The nodes are
  distinct objects, so the in-place loop is a map. The call of
  \<open>drawFrameWithSeparateRadii\<close> that ends \<open>ticked\<close> only paints.
\<close>

definition ticked :: "real \<Rightarrow> real \<Rightarrow> node list \<Rightarrow> node list" where
  "ticked width height nodes = map (tickNode width height) nodes"

text \<open>The squared speed of a node, its velocity read as the handler reads it.\<close>

definition speed2 :: "node \<Rightarrow> real" where
  "speed2 n = orZero (vx n) * orZero (vx n) + orZero (vy n) * orZero (vy n)"

section \<open>The simulation step\<close>

text \<open>
  \<open>ticked\<close> is the listener of the \<open>tick\<close> event of \<open>d3.forceSimulation(nodes)\<close>.
  The library d3-force is not part of the repository; what follows is its position
  update (\<open>simulation.tick\<close>) as the program configures it. The only force is
  \<open>forceManyBody\<close> with strength 0, which changes no velocity. Then, for every node and
  on each axis by itself: without a pin, \<open>node.x += node.vx *= velocityDecay\<close>; with a
  pin, \<open>node.x = node.fx, node.vx = 0\<close>. The factor that d3 keeps for
  \<open>.velocityDecay(0)\<close> is \<open>1 - 0\<close>, and a velocity that is absent was set to 0 when
  the simulation took the nodes. After the update the simulation calls the listener.
\<close>

definition velocityDecay :: real where
  "velocityDecay = 1 - 0"

definition d3Node :: "node \<Rightarrow> node" where
  "d3Node n =
     (let n1 = (case fx n of
                  None \<Rightarrow> n\<lparr>vx := Some (orZero (vx n) * velocityDecay),
                             x := x n + orZero (vx n) * velocityDecay\<rparr>
                | Some px \<Rightarrow> n\<lparr>x := px, vx := Some 0\<rparr>)
      in case fy n1 of
           None \<Rightarrow> n1\<lparr>vy := Some (orZero (vy n1) * velocityDecay),
                       y := y n1 + orZero (vy n1) * velocityDecay\<rparr>
         | Some py \<Rightarrow> n1\<lparr>y := py, vy := Some 0\<rparr>)"



section \<open>Node generation\<close>

definition NODE_RADIUS :: real where
  "NODE_RADIUS = 4"

definition SPEED_FACTOR :: real where
  "SPEED_FACTOR = 0.44"

definition RADIUS_MIN_FACTOR :: real where
  "RADIUS_MIN_FACTOR = 0.10"

definition RADIUS_MAX_FACTOR :: real where
  "RADIUS_MAX_FACTOR = 0.2"

definition COLOR_WEIGHTS :: "(string \<times> real) list" where
  "COLOR_WEIGHTS = [(''#3cd962'', 0.75), (''#FF00FF'', 0.18), (''#e9fbfd'', 0.07)]"

text \<open>
  \<open>Math.random()\<close> is an input of the model: \<open>rnd k\<close> is the value of the \<open>k\<close>-th
  call, and the theorems that need its contract assume \<open>0 \<le> rnd k < 1\<close>.

  \<open>pickWeightedColor\<close>: the loop over the table with the running sum \<open>acc\<close>; the
  draw is its argument. \<open>None\<close> from the loop is the fall through to
  \<open>COLOR_WEIGHTS[0].color\<close>.
\<close>

fun pickFrom :: "real \<Rightarrow> real \<Rightarrow> (string \<times> real) list \<Rightarrow> string option" where
  "pickFrom rand acc [] = None"
| "pickFrom rand acc ((c, w) # cws) =
     (if rand \<le> acc + w then Some c else pickFrom rand (acc + w) cws)"

definition pickWeightedColor :: "real \<Rightarrow> string" where
  "pickWeightedColor rand =
     (case pickFrom rand 0 COLOR_WEIGHTS of
        Some c \<Rightarrow> c
      | None \<Rightarrow> fst (COLOR_WEIGHTS ! 0))"

text \<open>
  The callback of \<open>Array.from\<close> in \<open>generateNodes\<close> for index \<open>i\<close>. It calls
  \<open>Math.random\<close> six times, in this order: radius factor, x, y, vx, vy, color.
\<close>

definition generateNode :: "real \<Rightarrow> real \<Rightarrow> (nat \<Rightarrow> real) \<Rightarrow> nat \<Rightarrow> node" where
  "generateNode width height rnd i =
     (let factor = RADIUS_MIN_FACTOR + rnd (6 * i) * (RADIUS_MAX_FACTOR - RADIUS_MIN_FACTOR);
          rad = max 1 (NODE_RADIUS * factor)
      in \<lparr>id_n = int i,
          x = rnd (6 * i + 1) * width,
          y = rnd (6 * i + 2) * height,
          vx = Some ((rnd (6 * i + 3) - 0.5) * 2 * SPEED_FACTOR),
          vy = Some ((rnd (6 * i + 4) - 0.5) * 2 * SPEED_FACTOR),
          fx = None,
          fy = None,
          radius = rad,
          color = pickWeightedColor (rnd (6 * i + 5))\<rparr>)"

definition generateNodes :: "nat \<Rightarrow> real \<Rightarrow> real \<Rightarrow> (nat \<Rightarrow> real) \<Rightarrow> node list" where
  "generateNodes count width height rnd = map (generateNode width height rnd) [0..<count]"

definition mouseRadius :: real where
  "mouseRadius = max 1 (NODE_RADIUS * 0.15)"

definition newMouseNode :: "real \<Rightarrow> real \<Rightarrow> node" where
  "newMouseNode width height =
     \<lparr>id_n = - 1, x = width / 2, y = height / 2, vx = Some 0, vy = Some 0,
      fx = None, fy = None, radius = mouseRadius, color = ''#3cd962''\<rparr>"

section \<open>Pointer handling\<close>

text \<open>
  The state of one run of the second effect. The pointer node is one object, reachable
  both as the closure variable \<open>mouseNode\<close> and as the last element of \<open>nodes\<close>
  (\<open>nodes.push(mouseNode)\<close>); it is stored once, and the array \<open>nodes\<close> is
  \<open>nodesOf\<close>: the generated nodes followed by it. \<open>rafSeq\<close> counts the handles \<open>requestAnimationFrame\<close> has
  given out; \<open>alpha\<close> and \<open>alphaTarget\<close> are the two values of the simulation the
  handlers write. Pointer capture and \<open>preventDefault\<close> leave this state alone.
\<close>

record PointerEvent =
  clientX :: real
  clientY :: real
  isPrimary :: bool
  pointerId :: int

record DOMRect =
  rect_left :: real
  rect_top :: real
  rect_width :: real
  rect_height :: real

record graph =
  particles :: "node list"
  mouseNode :: node
  rafId :: "nat option"
  rafSeq :: nat
  lastEvent :: "PointerEvent option"
  isDragging :: bool
  activePointerId :: "int option"
  alpha :: real
  alphaTarget :: real

definition nodesOf :: "graph \<Rightarrow> node list" where
  "nodesOf s = particles s @ [mouseNode s]"

definition initGraph :: "nat \<Rightarrow> real \<Rightarrow> real \<Rightarrow> (nat \<Rightarrow> real) \<Rightarrow> graph" where
  "initGraph count width height rnd =
     \<lparr>particles = generateNodes count width height rnd,
      mouseNode = newMouseNode width height,
      rafId = None, rafSeq = 0, lastEvent = None, isDragging = False,
      activePointerId = None, alpha = 1, alphaTarget = 0\<rparr>"

definition DRAG_LERP :: real where
  "DRAG_LERP = 0"

definition lerp :: "real \<Rightarrow> real \<Rightarrow> real \<Rightarrow> real" where
  "lerp a0 b0 t = a0 + (b0 - a0) * t"

text \<open>\<open>if (rafId == null) rafId = requestAnimationFrame(processPointer)\<close>\<close>

definition scheduleFrame :: "graph \<Rightarrow> graph" where
  "scheduleFrame s =
     (if rafId s = None then s\<lparr>rafId := Some (Suc (rafSeq s)), rafSeq := Suc (rafSeq s)\<rparr>
      else s)"

definition handlePointerMoveGlobal :: "PointerEvent \<Rightarrow> graph \<Rightarrow> graph" where
  "handlePointerMoveGlobal e s = scheduleFrame (s\<lparr>lastEvent := Some e\<rparr>)"

text \<open>
  \<open>processPointer\<close> is the frame callback; \<open>rect\<close> is what
  \<open>canvas.getBoundingClientRect()\<close> returns at that moment. \<open>dragTo\<close> and
  \<open>hoverTo\<close> are its two branches. The position of a node is always present, so
  the fallback in \<open>mouseNode.x ?? cx\<close> is never taken.
\<close>

definition dragTo :: "real \<Rightarrow> real \<Rightarrow> node \<Rightarrow> node" where
  "dragTo cx cy m =
     (let m1 = m\<lparr>x := lerp (x m) cx DRAG_LERP\<rparr>;
          m2 = m1\<lparr>y := lerp (y m1) cy DRAG_LERP\<rparr>;
          m3 = m2\<lparr>fx := Some (x m2)\<rparr>
      in m3\<lparr>fy := Some (y m3)\<rparr>)"

definition hoverTo :: "real \<Rightarrow> real \<Rightarrow> node \<Rightarrow> node" where
  "hoverTo cx cy m = m\<lparr>x := cx, y := cy, fx := Some cx, fy := Some cy\<rparr>"

definition processPointer :: "DOMRect \<Rightarrow> graph \<Rightarrow> graph" where
  "processPointer rect s =
     (let s1 = s\<lparr>rafId := None\<rparr>
      in case lastEvent s1 of
           None \<Rightarrow> s1
         | Some e \<Rightarrow>
             (let cx = max 0 (min (clientX e - rect_left rect) (rect_width rect));
                  cy = max 0 (min (clientY e - rect_top rect) (rect_height rect));
                  m = (if isDragging s1 then dragTo cx cy (mouseNode s1)
                       else hoverTo cx cy (mouseNode s1))
              in s1\<lparr>mouseNode := m, alpha := 0.1, lastEvent := None\<rparr>))"

definition onPointerDown :: "PointerEvent \<Rightarrow> graph \<Rightarrow> graph" where
  "onPointerDown e s =
     (if \<not> isPrimary e then s
      else (scheduleFrame
              (s\<lparr>isDragging := True, activePointerId := Some (pointerId e),
                 lastEvent := Some e\<rparr>))\<lparr>alphaTarget := 0.1\<rparr>)"

definition endDragFromEvent :: "PointerEvent \<Rightarrow> graph \<Rightarrow> graph" where
  "endDragFromEvent e s =
     (if \<not> isPrimary e then s
      else s\<lparr>isDragging := False, activePointerId := None, lastEvent := None,
              alphaTarget := 0\<rparr>)"

definition onPointerUp :: "PointerEvent \<Rightarrow> graph \<Rightarrow> graph" where
  "onPointerUp e s = endDragFromEvent e s"

definition onPointerCancel :: "PointerEvent \<Rightarrow> graph \<Rightarrow> graph" where
  "onPointerCancel e s = endDragFromEvent e s"

definition handlePointerLeaveGlobal :: "graph \<Rightarrow> graph" where
  "handlePointerLeaveGlobal s =
     (if \<not> isDragging s then s\<lparr>mouseNode := (mouseNode s)\<lparr>fx := None, fy := None\<rparr>\<rparr>
      else s)"

text \<open>The tick handler on the state: it runs over the array, the pointer node included.\<close>

definition tick :: "real \<Rightarrow> real \<Rightarrow> graph \<Rightarrow> graph" where
  "tick width height s =
     s\<lparr>particles := map (tickNode width height) (particles s),
       mouseNode := tickNode width height (mouseNode s)\<rparr>"

section \<open>Rendering\<close>

definition LINK_DISTANCE :: real where
  "LINK_DISTANCE = 100"

definition MOUSE_EFFECT_RADIUS_NODES :: real where
  "MOUSE_EFFECT_RADIUS_NODES = 700"

definition MOUSE_EFFECT_RADIUS_EDGES :: real where
  "MOUSE_EFFECT_RADIUS_EDGES = 375"

datatype falloff = Linear | Quadratic

definition MOUSE_FALLOFF :: falloff where
  "MOUSE_FALLOFF = Linear"

text \<open>\<open>Math.hypot\<close> of two arguments.\<close>

definition hypot :: "real \<Rightarrow> real \<Rightarrow> real" where
  "hypot dx dy = sqrt (dx * dx + dy * dy)"

text \<open>
  Edge discovery, the two nested index loops of \<open>drawFrameWithSeparateRadii\<close>:
  \<open>i\<close> from \<open>0\<close>, \<open>j\<close> from \<open>i + 1\<close>, both below \<open>nodes.length\<close>. An edge
  \<open>{a, b, dist}\<close> is the triple \<open>(a, b, dist)\<close>.
\<close>

type_synonym edge = "node \<times> node \<times> real"

definition edgeOf :: "node list \<Rightarrow> nat \<Rightarrow> nat \<Rightarrow> edge list" where
  "edgeOf nodes i j =
     (let na = nodes ! i;
          nb = nodes ! j;
          dx = x na - x nb;
          dy = y na - y nb;
          d = hypot dx dy
      in if d \<le> LINK_DISTANCE then [(na, nb, d)] else [])"

definition computeEdges :: "node list \<Rightarrow> edge list" where
  "computeEdges nodes =
     concat (map (\<lambda>i. concat (map (\<lambda>j. edgeOf nodes i j) [i + 1..<length nodes]))
                 [0..<length nodes])"

text \<open>
  \<open>proximityFactorToMouseWithRadius\<close>. The source reads the falloff from the constant
  \<open>MOUSE_FALLOFF\<close> and the pointer node from the enclosing call; both are arguments
  here, so that the two branches of the falloff can be compared. Both call sites pass
  the square of \<open>rad\<close> for \<open>rad2\<close> (\<open>rNodes2 = rNodes * rNodes\<close>). As above,
  \<open>n.x ?? 0\<close> is \<open>x n\<close>.
\<close>

definition proximityFactorToMouseWithRadius ::
  "falloff \<Rightarrow> node \<Rightarrow> node \<Rightarrow> real \<Rightarrow> real \<Rightarrow> real" where
  "proximityFactorToMouseWithRadius mode mouse n rad rad2 =
     (let dx = x n - x mouse;
          dy = y n - y mouse;
          d2 = dx * dx + dy * dy
      in if d2 \<ge> rad2 then 0
         else (let t = sqrt d2 / rad
               in case mode of
                    Linear \<Rightarrow> max 0 (1 - t)
                  | Quadratic \<Rightarrow> max 0 (1 - t * t)))"

text \<open>
  The body of the edge loop up to the decision to stroke: \<open>None\<close> is \<open>continue\<close>,
  \<open>Some\<close> carries \<open>combinedOpacity\<close>.
\<close>

definition baseOpacity :: "real \<Rightarrow> real" where
  "baseOpacity d = max 0 (1 - d / LINK_DISTANCE)"

definition edgeOpacity :: "falloff \<Rightarrow> node \<Rightarrow> edge \<Rightarrow> real option" where
  "edgeOpacity mode mouse e =
     (case e of (na, nb, d) \<Rightarrow>
        (let rEdges = MOUSE_EFFECT_RADIUS_EDGES;
             rEdges2 = rEdges * rEdges;
             paEdge = proximityFactorToMouseWithRadius mode mouse na rEdges rEdges2;
             pbEdge = proximityFactorToMouseWithRadius mode mouse nb rEdges rEdges2
         in if paEdge = 0 \<and> pbEdge = 0 then None
            else (let proximityEdge = (paEdge + pbEdge) / 2;
                      combinedOpacity = baseOpacity d * proximityEdge
                  in if combinedOpacity \<le> 0.005 then None else Some combinedOpacity)))"

text \<open>The squared distance of a node to the pointer node, to state properties with.\<close>

definition sqDist :: "node \<Rightarrow> node \<Rightarrow> real" where
  "sqDist mouse n = (x n - x mouse) * (x n - x mouse) + (y n - y mouse) * (y n - y mouse)"

section \<open>Colors\<close>

text \<open>
  \<open>parseInt(s, 16)\<close> after ECMAScript: leading white space is dropped, then an optional
  sign, then an optional \<open>0x\<close> or \<open>0X\<close>; the longest run of hexadecimal digits that
  follows is the value, and no digit at all gives \<open>NaN\<close>, which is \<open>None\<close> here.
  Strings are ASCII, and \<open>-0\<close> is \<open>0\<close>.
\<close>

definition isWhiteSpace :: "char \<Rightarrow> bool" where
  "isWhiteSpace c \<longleftrightarrow> c \<in> set [CHR 0x09, CHR 0x0A, CHR 0x0B, CHR 0x0C, CHR 0x0D, CHR '' '']"

definition hexDigitValue :: "char \<Rightarrow> int option" where
  "hexDigitValue = map_of
     [(CHR ''0'', 0), (CHR ''1'', 1), (CHR ''2'', 2), (CHR ''3'', 3), (CHR ''4'', 4),
      (CHR ''5'', 5), (CHR ''6'', 6), (CHR ''7'', 7), (CHR ''8'', 8), (CHR ''9'', 9),
      (CHR ''a'', 10), (CHR ''b'', 11), (CHR ''c'', 12), (CHR ''d'', 13), (CHR ''e'', 14),
      (CHR ''f'', 15),
      (CHR ''A'', 10), (CHR ''B'', 11), (CHR ''C'', 12), (CHR ''D'', 13), (CHR ''E'', 14),
      (CHR ''F'', 15)]"

fun parseDigits :: "int option \<Rightarrow> string \<Rightarrow> int option" where
  "parseDigits acc [] = acc"
| "parseDigits acc (c # cs) =
     (case hexDigitValue c of
        None \<Rightarrow> acc
      | Some d \<Rightarrow> parseDigits (Some (16 * (case acc of None \<Rightarrow> 0 | Some v \<Rightarrow> v) + d)) cs)"

definition stripSign :: "string \<Rightarrow> int \<times> string" where
  "stripSign s =
     (case s of
        [] \<Rightarrow> (1, [])
      | c # cs \<Rightarrow> if c = CHR ''-'' then (- 1, cs) else if c = CHR ''+'' then (1, cs) else (1, s))"

definition stripPrefix :: "string \<Rightarrow> string" where
  "stripPrefix s =
     (case s of
        c0 # c1 # cs \<Rightarrow> if c0 = CHR ''0'' \<and> (c1 = CHR ''x'' \<or> c1 = CHR ''X'') then cs else s
      | _ \<Rightarrow> s)"

definition parseInt16 :: "string \<Rightarrow> int option" where
  "parseInt16 s =
     (case stripSign (dropWhile isWhiteSpace s) of
        (sign, s1) \<Rightarrow> map_option (\<lambda>v. sign * v) (parseDigits None (stripPrefix s1)))"

record rgb =
  r :: "int option"
  g :: "int option"
  b :: "int option"

definition gray :: rgb where
  "gray = \<lparr>r = Some 200, g = Some 200, b = Some 200\<rparr>"

text \<open>
  \<open>hexToRgb\<close>. \<open>!hex\<close> holds of the empty string only; \<open>hex.replace("#", "")\<close>
  removes the first \<open>#\<close>.
\<close>

definition hexToRgb :: "string \<Rightarrow> rgb" where
  "hexToRgb hex =
     (if hex = [] then \<lparr>r = Some 200, g = Some 200, b = Some 200\<rparr>
      else (let h = remove1 (CHR ''#'') hex
            in if length h = 3 then
                 \<lparr>r = parseInt16 [h ! 0, h ! 0],
                  g = parseInt16 [h ! 1, h ! 1],
                  b = parseInt16 [h ! 2, h ! 2]\<rparr>
               else
                 \<lparr>r = parseInt16 (take 2 h),
                  g = parseInt16 (take 2 (drop 2 h)),
                  b = parseInt16 (take 2 (drop 4 h))\<rparr>))"

text \<open>
  A character that \<open>parseInt\<close> can do nothing with and \<open>replace\<close> leaves alone: not a
  hexadecimal digit, not white space, not a sign, not \<open>#\<close>.
\<close>

definition noHexChar :: "char \<Rightarrow> bool" where
  "noHexChar c \<longleftrightarrow>
     hexDigitValue c = None \<and> \<not> isWhiteSpace c \<and> c \<noteq> CHR ''+'' \<and> c \<noteq> CHR ''-'' \<and> c \<noteq> CHR ''#''"

section \<open>Sample data\<close>

text \<open>Concrete nodes and events, for evaluating the definitions.\<close>

definition particle :: "real \<Rightarrow> real \<Rightarrow> real \<Rightarrow> real \<Rightarrow> node" where
  "particle px py pvx pvy =
     \<lparr>id_n = 0, x = px, y = py, vx = Some pvx, vy = Some pvy, fx = None, fy = None,
      radius = 1, color = ''#3cd962''\<rparr>"



definition pointerAt :: "real \<Rightarrow> real \<Rightarrow> PointerEvent" where
  "pointerAt px py = \<lparr>clientX = px, clientY = py, isPrimary = True, pointerId = 1\<rparr>"

definition canvasRect :: "real \<Rightarrow> real \<Rightarrow> DOMRect" where
  "canvasRect width height =
     \<lparr>rect_left = 0, rect_top = 0, rect_width = width, rect_height = height\<rparr>"

text \<open>
  Two drags from (100, 100) to (150, 100) in a viewport of 900 by 600 whose canvas sits at
  the origin of the page. \<open>touchDrag\<close>: the pointer goes down and moves before the
  next frame. \<open>mouseDrag\<close>: the pointer first hovers at (100, 100) for a frame, then
  goes down there and moves.
\<close>

definition touchDrag :: "nat \<Rightarrow> (nat \<Rightarrow> real) \<Rightarrow> graph" where
  "touchDrag count rnd =
     processPointer (canvasRect 900 600)
       (handlePointerMoveGlobal (pointerAt 150 100)
          (onPointerDown (pointerAt 100 100) (initGraph count 900 600 rnd)))"

definition mouseDrag :: "nat \<Rightarrow> (nat \<Rightarrow> real) \<Rightarrow> graph" where
  "mouseDrag count rnd =
     processPointer (canvasRect 900 600)
       (handlePointerMoveGlobal (pointerAt 150 100)
          (onPointerDown (pointerAt 100 100)
             (processPointer (canvasRect 900 600)
                (handlePointerMoveGlobal (pointerAt 100 100) (initGraph count 900 600 rnd)))))"

section \<open>Properties of the tick handler\<close>

lemma ticked_nth:
  "i < length nodes \<Longrightarrow> ticked width height nodes ! i = tickNode width height (nodes ! i)"
  by (simp add: ticked_def)

lemma nodesOf_tick: "nodesOf (tick width height s) = ticked width height (nodesOf s)"
  by (simp add: nodesOf_def tick_def ticked_def)

lemma tickNode_pinned_pointer:
  "id_n n = - 1 \<Longrightarrow> fx n = Some px \<Longrightarrow> fy n = Some py \<Longrightarrow>
   tickNode width height n = n\<lparr>vx := Some 0, vy := Some 0, x := px, y := py\<rparr>"
  by (simp add: tickNode_def)

lemma tickNode_bounce:
  "id_n n \<noteq> - 1 \<or> fx n = None \<or> fy n = None \<Longrightarrow>
   tickNode width height n = bounce width height n"
  by (auto simp: tickNode_def split: option.splits)

text \<open>
  C5. Whenever the pointer node (id \<open>-1\<close>) of the array has both pin fields present,
  after one run of \<open>ticked\<close> its velocity is exactly \<open>(0, 0)\<close> and its position is
  exactly \<open>(fx, fy)\<close>, whatever its position and velocity were before.
\<close>

theorem ticked_pinned_pointer_on_pin:
  assumes "i < length nodes"
    and "id_n (nodes ! i) = - 1"
    and "fx (nodes ! i) = Some px"
    and "fy (nodes ! i) = Some py"
  shows "vx (ticked width height nodes ! i) = Some 0
       \<and> vy (ticked width height nodes ! i) = Some 0
       \<and> x (ticked width height nodes ! i) = px
       \<and> y (ticked width height nodes ! i) = py"
  using assms by (simp add: ticked_nth tickNode_pinned_pointer)

theorem ticked_pinned_pointer_on_pin_witness:
  "(let nodes = [\<lparr>id_n = 0, x = 5, y = 5, vx = Some 1, vy = Some 1, fx = None, fy = None,
                   radius = 1, color = ''#3cd962''\<rparr>,
                 \<lparr>id_n = - 1, x = 450, y = 300, vx = Some 3, vy = Some (- 2),
                   fx = Some 150, fy = Some 100, radius = 1, color = ''#3cd962''\<rparr>]
    in (1::nat) < length nodes \<and> id_n (nodes ! 1) = - 1
       \<and> fx (nodes ! 1) = Some 150 \<and> fy (nodes ! 1) = Some 100
       \<and> vx (ticked 900 600 nodes ! 1) = Some 0 \<and> vy (ticked 900 600 nodes ! 1) = Some 0
       \<and> x (ticked 900 600 nodes ! 1) = 150 \<and> y (ticked 900 600 nodes ! 1) = 100)"
  using ticked_pinned_pointer_on_pin
    [of 1 "[\<lparr>id_n = 0, x = 5, y = 5, vx = Some 1, vy = Some 1, fx = None, fy = None,
              radius = 1, color = ''#3cd962''\<rparr>,
            \<lparr>id_n = - 1, x = 450, y = 300, vx = Some 3, vy = Some (- 2),
              fx = Some 150, fy = Some 100, radius = 1, color = ''#3cd962''\<rparr>]"
        150 100 900 600]
  by simp

lemma reflectX_radius: "radius (reflectX width n) = radius n"
  by (simp add: reflectX_def)

lemma reflectY_radius: "radius (reflectY height n) = radius n"
  by (simp add: reflectY_def)

lemma bounce_radius: "radius (bounce width height n) = radius n"
  by (simp add: bounce_def reflectX_radius reflectY_radius)

lemma tickNode_radius: "radius (tickNode width height n) = radius n"
  by (simp add: tickNode_def bounce_radius split: option.splits)

lemma bounce_x_bounds:
  "2 * radius n \<le> width \<Longrightarrow>
   radius n \<le> x (bounce width height n) \<and> x (bounce width height n) \<le> width - radius n"
  by (simp add: bounce_def reflectX_def reflectY_def)

lemma bounce_y_bounds:
  "2 * radius n \<le> height \<Longrightarrow>
   radius n \<le> y (bounce width height n) \<and> y (bounce width height n) \<le> height - radius n"
  by (simp add: bounce_def reflectX_def reflectY_def)

text \<open>
  C3, as the code has it. For every node of the array except the pinned pointer node,
  provided the viewport is at least one diameter of the node wide and high
  (\<open>2 * radius \<le> width\<close> and \<open>2 * radius \<le> height\<close>), after one run of \<open>ticked\<close>
  the node satisfies \<open>radius \<le> x \<le> width - radius\<close> and
  \<open>radius \<le> y \<le> height - radius\<close>, whatever its position and velocity were.
\<close>

theorem ticked_in_bounds:
  assumes "i < length nodes"
    and "\<not> (id_n (nodes ! i) = - 1 \<and> fx (nodes ! i) \<noteq> None \<and> fy (nodes ! i) \<noteq> None)"
    and "2 * radius (nodes ! i) \<le> width"
    and "2 * radius (nodes ! i) \<le> height"
  shows "radius (ticked width height nodes ! i) \<le> x (ticked width height nodes ! i)
       \<and> x (ticked width height nodes ! i) \<le> width - radius (ticked width height nodes ! i)
       \<and> radius (ticked width height nodes ! i) \<le> y (ticked width height nodes ! i)
       \<and> y (ticked width height nodes ! i) \<le> height - radius (ticked width height nodes ! i)"
proof -
  have "tickNode width height (nodes ! i) = bounce width height (nodes ! i)"
    using assms(2) by (intro tickNode_bounce) auto
  then show ?thesis
    using assms(1,3,4) bounce_x_bounds [of "nodes ! i" width height]
      bounce_y_bounds [of "nodes ! i" height width]
    by (simp add: ticked_nth bounce_radius)
qed

text \<open>
  Without the condition on the viewport the bounds fail: in a viewport of 1 by 1 a node
  of radius 1 at \<open>(1/2, 1/2)\<close> is put at \<open>x = 1\<close>, beyond \<open>width - radius = 0\<close>.
\<close>

theorem ticked_in_bounds_witness:
  "(0::nat) < length [particle 950 (- 3) 2 (- 2)]
   \<and> \<not> (id_n ([particle 950 (- 3) 2 (- 2)] ! 0) = - 1 \<and> fx ([particle 950 (- 3) 2 (- 2)] ! 0) \<noteq> None
         \<and> fy ([particle 950 (- 3) 2 (- 2)] ! 0) \<noteq> None)
   \<and> 2 * radius ([particle 950 (- 3) 2 (- 2)] ! 0) \<le> 900
   \<and> 2 * radius ([particle 950 (- 3) 2 (- 2)] ! 0) \<le> 600
   \<and> x (ticked 900 600 [particle 950 (- 3) 2 (- 2)] ! 0) = 899
   \<and> y (ticked 900 600 [particle 950 (- 3) 2 (- 2)] ! 0) = 1
   \<and> radius (ticked 900 600 [particle 950 (- 3) 2 (- 2)] ! 0) \<le> x (ticked 900 600 [particle 950 (- 3) 2 (- 2)] ! 0)
   \<and> x (ticked 900 600 [particle 950 (- 3) 2 (- 2)] ! 0) \<le> 900 - radius (ticked 900 600 [particle 950 (- 3) 2 (- 2)] ! 0)"
  using ticked_in_bounds [of 0 "[particle 950 (- 3) 2 (- 2)]" 900 600]
  by (simp add: particle_def ticked_def tickNode_def bounce_def reflectX_def reflectY_def)

theorem ticked_in_bounds_counterexample:
  "\<not> (radius (ticked 1 1 [particle (1 / 2) (1 / 2) 0 0] ! 0) \<le> x (ticked 1 1 [particle (1 / 2) (1 / 2) 0 0] ! 0)
      \<and> x (ticked 1 1 [particle (1 / 2) (1 / 2) 0 0] ! 0) \<le> 1 - radius (ticked 1 1 [particle (1 / 2) (1 / 2) 0 0] ! 0)
      \<and> radius (ticked 1 1 [particle (1 / 2) (1 / 2) 0 0] ! 0) \<le> y (ticked 1 1 [particle (1 / 2) (1 / 2) 0 0] ! 0)
      \<and> y (ticked 1 1 [particle (1 / 2) (1 / 2) 0 0] ! 0) \<le> 1 - radius (ticked 1 1 [particle (1 / 2) (1 / 2) 0 0] ! 0))"
  by (simp add: particle_def ticked_def tickNode_def bounce_def reflectX_def reflectY_def)


lemma reflectX_velocity:
  "\<bar>orZero (vx (reflectX width n))\<bar> = \<bar>orZero (vx n)\<bar> \<and> vy (reflectX width n) = vy n"
  by (simp add: reflectX_def orZero_def)

lemma reflectY_velocity:
  "\<bar>orZero (vy (reflectY height n))\<bar> = \<bar>orZero (vy n)\<bar> \<and> vx (reflectY height n) = vx n"
  by (simp add: reflectY_def orZero_def)

lemma bounce_velocity:
  "\<bar>orZero (vx (bounce width height n))\<bar> = \<bar>orZero (vx n)\<bar>
   \<and> \<bar>orZero (vy (bounce width height n))\<bar> = \<bar>orZero (vy n)\<bar>"
  by (simp add: bounce_def reflectX_def reflectY_def orZero_def)

lemma bounce_inside_x:
  "radius n < x n \<Longrightarrow> x n < width - radius n \<Longrightarrow> vx (bounce width height n) = vx n"
  by (simp add: bounce_def reflectX_def reflectY_def)

lemma bounce_inside_y:
  "radius n < y n \<Longrightarrow> y n < height - radius n \<Longrightarrow> vy (bounce width height n) = vy n"
  by (simp add: bounce_def reflectX_def reflectY_def)

lemma abs_eq_square: "\<bar>u\<bar> = \<bar>w\<bar> \<Longrightarrow> u * u = w * (w::real)"
  by (metis abs_mult_self_eq)

text \<open>
  C6. For every node of the array that is not the pointer node, one run of \<open>ticked\<close>
  preserves \<open>vx\<^sup>2 + vy\<^sup>2\<close>: each velocity component keeps its magnitude, and the
  component of an axis on which the node is strictly inside the walls is not touched,
  so a bounce on one axis changes at most the sign of that axis's component.
\<close>

theorem ticked_preserves_speed:
  assumes "i < length nodes" and "id_n (nodes ! i) \<noteq> - 1"
  shows "speed2 (ticked width height nodes ! i) = speed2 (nodes ! i)
       \<and> \<bar>orZero (vx (ticked width height nodes ! i))\<bar> = \<bar>orZero (vx (nodes ! i))\<bar>
       \<and> \<bar>orZero (vy (ticked width height nodes ! i))\<bar> = \<bar>orZero (vy (nodes ! i))\<bar>
       \<and> (radius (nodes ! i) < x (nodes ! i) \<and> x (nodes ! i) < width - radius (nodes ! i) \<longrightarrow>
            vx (ticked width height nodes ! i) = vx (nodes ! i))
       \<and> (radius (nodes ! i) < y (nodes ! i) \<and> y (nodes ! i) < height - radius (nodes ! i) \<longrightarrow>
            vy (ticked width height nodes ! i) = vy (nodes ! i))"
proof -
  have t: "ticked width height nodes ! i = bounce width height (nodes ! i)"
    using assms by (simp add: ticked_nth tickNode_bounce)
  have v: "\<bar>orZero (vx (bounce width height (nodes ! i)))\<bar> = \<bar>orZero (vx (nodes ! i))\<bar>"
      "\<bar>orZero (vy (bounce width height (nodes ! i)))\<bar> = \<bar>orZero (vy (nodes ! i))\<bar>"
    using bounce_velocity [of width height "nodes ! i"] by simp_all
  have "speed2 (bounce width height (nodes ! i)) = speed2 (nodes ! i)"
    unfolding speed2_def using abs_eq_square [OF v(1)] abs_eq_square [OF v(2)] by simp
  then show ?thesis
    using t v by (simp add: bounce_inside_x bounce_inside_y)
qed

theorem ticked_preserves_speed_witness:
  "(0::nat) < length [particle 0 300 (- 3) 4] \<and> id_n ([particle 0 300 (- 3) 4] ! 0) \<noteq> - 1
   \<and> radius ([particle 0 300 (- 3) 4] ! 0) < y ([particle 0 300 (- 3) 4] ! 0)
   \<and> y ([particle 0 300 (- 3) 4] ! 0) < 600 - radius ([particle 0 300 (- 3) 4] ! 0)
   \<and> speed2 ([particle 0 300 (- 3) 4] ! 0) = 25
   \<and> speed2 (ticked 900 600 [particle 0 300 (- 3) 4] ! 0) = 25
   \<and> vx (ticked 900 600 [particle 0 300 (- 3) 4] ! 0) = Some 3
   \<and> vy (ticked 900 600 [particle 0 300 (- 3) 4] ! 0) = Some 4"
  using ticked_preserves_speed [of 0 "[particle 0 300 (- 3) 4]" 900 600]
  by (simp add: particle_def speed2_def orZero_def ticked_def tickNode_def bounce_def
        reflectX_def reflectY_def)

section \<open>Properties of the simulation step\<close>







lemma d3Node_unpinned:
  "fx n = None \<Longrightarrow> fy n = None \<Longrightarrow>
   d3Node n = n\<lparr>vx := Some (orZero (vx n)), x := x n + orZero (vx n),
                vy := Some (orZero (vy n)), y := y n + orZero (vy n)\<rparr>"
  by (simp add: d3Node_def velocityDecay_def)




section \<open>Properties of pointer handling\<close>

lemma lerp_zero: "lerp a0 b0 0 = a0"
  by (simp add: lerp_def)

lemma dragTo_frozen: "dragTo cx cy m = m\<lparr>fx := Some (x m), fy := Some (y m)\<rparr>"
  by (simp add: dragTo_def DRAG_LERP_def lerp_zero)

lemma processPointer_dragging:
  "isDragging s \<Longrightarrow> lastEvent s = Some e \<Longrightarrow>
   mouseNode (processPointer rect s) = (mouseNode s)\<lparr>fx := Some (x (mouseNode s)), fy := Some (y (mouseNode s))\<rparr>"
  by (simp add: processPointer_def dragTo_frozen)

text \<open>
  C1 says that with the smoothing factor 0 a drag from (100, 100) to (150, 100) leaves the
  pointer node at exactly (150, 100) after the next processed frame, and the comment on
  \<open>DRAG_LERP\<close> says the same (\<open>0 = immediate, 1 = no movement\<close>). The code does the
  opposite: \<open>lerp (a, b, 0) = a\<close>, so a frame processed while dragging leaves the pointer
  node where it was and pins it there. In the first drag it stays at the centre
  (450, 300) of the viewport, in the second at (100, 100) where the hover had put it, and
  the tick that follows keeps it there.
\<close>

theorem drag_with_zero_smoothing_does_not_follow:
  "isDragging (touchDrag count rnd)
   \<and> x (mouseNode (touchDrag count rnd)) = 450 \<and> y (mouseNode (touchDrag count rnd)) = 300
   \<and> x (mouseNode (tick 900 600 (touchDrag count rnd))) = 450
   \<and> y (mouseNode (tick 900 600 (touchDrag count rnd))) = 300
   \<and> isDragging (mouseDrag count rnd)
   \<and> x (mouseNode (mouseDrag count rnd)) = 100 \<and> y (mouseNode (mouseDrag count rnd)) = 100
   \<and> x (mouseNode (tick 900 600 (mouseDrag count rnd))) = 100
   \<and> y (mouseNode (tick 900 600 (mouseDrag count rnd))) = 100"
  by (simp add: touchDrag_def mouseDrag_def processPointer_def handlePointerMoveGlobal_def
        onPointerDown_def scheduleFrame_def initGraph_def newMouseNode_def pointerAt_def
        canvasRect_def dragTo_frozen hoverTo_def tick_def tickNode_def)

section \<open>Properties of the proximity factor\<close>

lemma proximity_unfold:
  "proximityFactorToMouseWithRadius mode mouse n rad rad2 =
     (if sqDist mouse n \<ge> rad2 then 0
      else case mode of
             Linear \<Rightarrow> max 0 (1 - sqrt (sqDist mouse n) / rad)
           | Quadratic \<Rightarrow> max 0 (1 - sqrt (sqDist mouse n) / rad * (sqrt (sqDist mouse n) / rad)))"
  by (cases mode) (simp_all add: proximityFactorToMouseWithRadius_def sqDist_def Let_def)

lemma sqDist_nonneg: "0 \<le> sqDist mouse n"
  by (simp add: sqDist_def)

lemma proximity_nonneg: "0 \<le> proximityFactorToMouseWithRadius mode mouse n rad rad2"
  by (simp add: proximity_unfold split: falloff.split)

lemma t_inside:
  assumes "0 < rad" and "d2 < rad * rad" and "0 \<le> d2"
  shows "0 \<le> sqrt d2 / rad \<and> sqrt d2 / rad < 1"
proof -
  have "sqrt d2 < sqrt (rad * rad)"
    using assms(2) by (simp only: real_sqrt_less_iff)
  then have "sqrt d2 < rad"
    using assms(1) by simp
  then show ?thesis
    using assms(1,3) by simp
qed

text \<open>
  C2, as the code has it. For every node and every positive effect radius, at every
  non-zero distance strictly inside the radius, the quadratic falloff \<open>1 - t\<^sup>2\<close> is
  greater than or equal to the linear falloff \<open>1 - t\<close>, where
  \<open>t = distance / radius\<close>: the order is the reverse of the one claimed.
\<close>

theorem quadratic_at_least_linear:
  assumes "0 < rad" and "0 < sqDist mouse n" and "sqDist mouse n < rad * rad"
  shows "proximityFactorToMouseWithRadius Quadratic mouse n rad (rad * rad)
       \<ge> proximityFactorToMouseWithRadius Linear mouse n rad (rad * rad)"
proof -
  define t where "t = sqrt (sqDist mouse n) / rad"
  have t: "0 \<le> t \<and> t < 1"
    unfolding t_def using assms by (intro t_inside) simp_all
  then have "t * t \<le> t * 1"
    by (intro mult_left_mono) simp_all
  then have "max 0 (1 - t) \<le> max 0 (1 - t * t)"
    by simp
  then show ?thesis
    using assms(3) by (simp add: proximity_unfold t_def)
qed

lemma sqDist_sample: "sqDist (newMouseNode 0 0) (particle 1 0 0 0) = 1"
  by (simp add: sqDist_def newMouseNode_def particle_def)

theorem quadratic_at_least_linear_witness:
  "(0::real) < 2 \<and> 0 < sqDist (newMouseNode 0 0) (particle 1 0 0 0)
   \<and> sqDist (newMouseNode 0 0) (particle 1 0 0 0) < 2 * 2
   \<and> proximityFactorToMouseWithRadius Linear (newMouseNode 0 0) (particle 1 0 0 0) 2 (2 * 2) = 1 / 2
   \<and> proximityFactorToMouseWithRadius Quadratic (newMouseNode 0 0) (particle 1 0 0 0) 2 (2 * 2) = 3 / 4"
  using quadratic_at_least_linear [of 2 "newMouseNode 0 0" "particle 1 0 0 0"]
  by (simp add: proximity_unfold sqDist_sample)

text \<open>
  At distance 1 with radius 2 the quadratic falloff gives 3/4 and the linear one 1/2.
\<close>

theorem quadratic_below_linear_counterexample:
  "(0::real) < 2 \<and> 0 < sqDist (newMouseNode 0 0) (particle 1 0 0 0)
   \<and> sqDist (newMouseNode 0 0) (particle 1 0 0 0) < 2 * 2
   \<and> \<not> (proximityFactorToMouseWithRadius Quadratic (newMouseNode 0 0) (particle 1 0 0 0) 2 (2 * 2)
          \<le> proximityFactorToMouseWithRadius Linear (newMouseNode 0 0) (particle 1 0 0 0) 2 (2 * 2))"
  by (simp add: proximity_unfold sqDist_sample)

text \<open>
  C7. For every node, every positive effect radius and either falloff, the proximity
  factor is 0 when the squared distance to the pointer node is at least \<open>radius\<^sup>2\<close>,
  is exactly 1 at distance 0, and does not increase when the distance grows.
\<close>

theorem proximity_zero_one_monotone:
  assumes "0 < rad"
  shows "(rad * rad \<le> sqDist mouse n \<longrightarrow>
            proximityFactorToMouseWithRadius mode mouse n rad (rad * rad) = 0)
       \<and> (sqDist mouse n = 0 \<longrightarrow>
            proximityFactorToMouseWithRadius mode mouse n rad (rad * rad) = 1)
       \<and> (sqrt (sqDist mouse n) \<le> sqrt (sqDist mouse n') \<longrightarrow>
            proximityFactorToMouseWithRadius mode mouse n' rad (rad * rad)
              \<le> proximityFactorToMouseWithRadius mode mouse n rad (rad * rad))"
proof (intro conjI impI)
  assume "rad * rad \<le> sqDist mouse n"
  then show "proximityFactorToMouseWithRadius mode mouse n rad (rad * rad) = 0"
    by (simp add: proximity_unfold)
next
  assume "sqDist mouse n = 0"
  moreover have "0 < rad * rad"
    using assms by simp
  ultimately show "proximityFactorToMouseWithRadius mode mouse n rad (rad * rad) = 1"
    by (simp add: proximity_unfold split: falloff.split)
next
  assume le: "sqrt (sqDist mouse n) \<le> sqrt (sqDist mouse n')"
  show "proximityFactorToMouseWithRadius mode mouse n' rad (rad * rad)
      \<le> proximityFactorToMouseWithRadius mode mouse n rad (rad * rad)"
  proof (cases "rad * rad \<le> sqDist mouse n'")
    case True
    then show ?thesis
      using proximity_nonneg [of mode mouse n rad "rad * rad"] by (simp add: proximity_unfold)
  next
    case False
    then have in': "sqDist mouse n' < rad * rad" by simp
    have "sqDist mouse n \<le> sqDist mouse n'"
      using le by simp
    then have "in": "sqDist mouse n < rad * rad"
      using in' by simp
    define t where "t = sqrt (sqDist mouse n) / rad"
    define t' where "t' = sqrt (sqDist mouse n') / rad"
    have t: "0 \<le> t" "t \<le> t'"
      unfolding t_def t'_def using assms le sqDist_nonneg [of mouse n]
      by (simp_all add: divide_right_mono)
    then have "t * t \<le> t' * t'"
      by (intro mult_mono) simp_all
    then have "max 0 (1 - t') \<le> max 0 (1 - t)" "max 0 (1 - t' * t') \<le> max 0 (1 - t * t)"
      using t by simp_all
    then show ?thesis
      using "in" in' by (simp add: proximity_unfold t_def t'_def split: falloff.split)
  qed
qed

lemma sqDist_sample0: "sqDist (newMouseNode 0 0) (particle 0 0 0 0) = 0"
  by (simp add: sqDist_def newMouseNode_def particle_def)

lemma sqDist_sample2: "sqDist (newMouseNode 0 0) (particle 2 0 0 0) = 4"
  by (simp add: sqDist_def newMouseNode_def particle_def)

theorem proximity_zero_one_monotone_witness:
  "(0::real) < 2
   \<and> 2 * 2 \<le> sqDist (newMouseNode 0 0) (particle 2 0 0 0)
   \<and> proximityFactorToMouseWithRadius Linear (newMouseNode 0 0) (particle 2 0 0 0) 2 (2 * 2) = 0
   \<and> sqDist (newMouseNode 0 0) (particle 0 0 0 0) = 0
   \<and> proximityFactorToMouseWithRadius Linear (newMouseNode 0 0) (particle 0 0 0 0) 2 (2 * 2) = 1
   \<and> sqrt (sqDist (newMouseNode 0 0) (particle 0 0 0 0))
       \<le> sqrt (sqDist (newMouseNode 0 0) (particle 1 0 0 0))
   \<and> proximityFactorToMouseWithRadius Linear (newMouseNode 0 0) (particle 1 0 0 0) 2 (2 * 2)
       \<le> proximityFactorToMouseWithRadius Linear (newMouseNode 0 0) (particle 0 0 0 0) 2 (2 * 2)"
  using proximity_zero_one_monotone [of 2 "newMouseNode 0 0" "particle 2 0 0 0" Linear "particle 0 0 0 0"]
    proximity_zero_one_monotone [of 2 "newMouseNode 0 0" "particle 0 0 0 0" Linear "particle 1 0 0 0"]
  by (simp add: sqDist_sample sqDist_sample0 sqDist_sample2)

section \<open>Properties of the edge set\<close>

lemma concat_map_member: "k \<in> set ks \<Longrightarrow> e \<in> set (f k) \<Longrightarrow> e \<in> set (concat (map f ks))"
  by auto

lemma computeEdges_member:
  assumes "i < j" and "j < length nodes"
    and "hypot (x (nodes ! i) - x (nodes ! j)) (y (nodes ! i) - y (nodes ! j)) \<le> LINK_DISTANCE"
  shows "(nodes ! i, nodes ! j,
          hypot (x (nodes ! i) - x (nodes ! j)) (y (nodes ! i) - y (nodes ! j)))
         \<in> set (computeEdges nodes)"
proof -
  have e: "(nodes ! i, nodes ! j,
        hypot (x (nodes ! i) - x (nodes ! j)) (y (nodes ! i) - y (nodes ! j)))
      \<in> set (edgeOf nodes i j)"
    using assms(3) by (simp add: edgeOf_def Let_def)
  have i: "i \<in> set [0..<length nodes]" and j: "j \<in> set [i + 1..<length nodes]"
    using assms(1,2) by simp_all
  show ?thesis
    unfolding computeEdges_def
  proof (rule concat_map_member [where k = i])
    show "i \<in> set [0..<length nodes]"
      by (rule i)
    show "(nodes ! i, nodes ! j,
          hypot (x (nodes ! i) - x (nodes ! j)) (y (nodes ! i) - y (nodes ! j)))
        \<in> set (concat (map (\<lambda>j. edgeOf nodes i j) [i + 1..<length nodes]))"
      by (rule concat_map_member [where k = j and f = "\<lambda>j. edgeOf nodes i j"]) (rule j, rule e)
  qed
qed

lemma baseOpacity_threshold: "baseOpacity LINK_DISTANCE = 0"
  by (simp add: baseOpacity_def LINK_DISTANCE_def)

lemma baseOpacity_zero: "baseOpacity 0 = 1"
  by (simp add: baseOpacity_def)

lemma edge_at_threshold_not_stroked: "edgeOpacity mode mouse (na, nb, LINK_DISTANCE) = None"
  by (simp add: edgeOpacity_def Let_def baseOpacity_threshold)

text \<open>
  C8. For every two distinct places \<open>i < j\<close> of the array: if the distance of the two
  nodes is exactly \<open>LINK_DISTANCE\<close>, the pair is in the edge set and its base opacity
  is 0; if their distance is 0, the pair is in the edge set and its base opacity is 1.
\<close>

theorem edge_at_threshold_and_at_zero:
  assumes "i < j" and "j < length nodes"
  shows "(hypot (x (nodes ! i) - x (nodes ! j)) (y (nodes ! i) - y (nodes ! j)) = LINK_DISTANCE \<longrightarrow>
            (nodes ! i, nodes ! j, LINK_DISTANCE) \<in> set (computeEdges nodes)
            \<and> baseOpacity LINK_DISTANCE = 0)
       \<and> (hypot (x (nodes ! i) - x (nodes ! j)) (y (nodes ! i) - y (nodes ! j)) = 0 \<longrightarrow>
            (nodes ! i, nodes ! j, 0) \<in> set (computeEdges nodes)
            \<and> baseOpacity 0 = 1)"
proof (intro conjI impI)
  assume h: "hypot (x (nodes ! i) - x (nodes ! j)) (y (nodes ! i) - y (nodes ! j)) = LINK_DISTANCE"
  show "(nodes ! i, nodes ! j, LINK_DISTANCE) \<in> set (computeEdges nodes)"
    using computeEdges_member [OF assms] h by simp
  show "baseOpacity LINK_DISTANCE = 0"
    by (rule baseOpacity_threshold)
next
  assume h: "hypot (x (nodes ! i) - x (nodes ! j)) (y (nodes ! i) - y (nodes ! j)) = 0"
  have "(0::real) \<le> LINK_DISTANCE"
    by (simp add: LINK_DISTANCE_def)
  then show "(nodes ! i, nodes ! j, 0) \<in> set (computeEdges nodes)"
    using computeEdges_member [OF assms] h by simp
  show "baseOpacity 0 = 1"
    by (rule baseOpacity_zero)
qed

lemma hypot_60_80: "hypot (- 60) (- 80) = 100"
proof -
  have "sqrt ((100::real)\<^sup>2) = 100"
    by simp
  then show ?thesis
    by (simp add: hypot_def)
qed

lemma hypot_0_0: "hypot 0 0 = 0"
  by (simp add: hypot_def)

theorem edge_at_threshold_and_at_zero_witness:
  "(0::nat) < 1 \<and> (1::nat) < length [particle 0 0 0 0, particle 60 80 0 0]
   \<and> hypot (x ([particle 0 0 0 0, particle 60 80 0 0] ! 0) - x ([particle 0 0 0 0, particle 60 80 0 0] ! 1))
            (y ([particle 0 0 0 0, particle 60 80 0 0] ! 0) - y ([particle 0 0 0 0, particle 60 80 0 0] ! 1))
       = LINK_DISTANCE
   \<and> (particle 0 0 0 0, particle 60 80 0 0, LINK_DISTANCE)
       \<in> set (computeEdges [particle 0 0 0 0, particle 60 80 0 0])
   \<and> hypot (x ([particle 5 5 0 0, particle 5 5 1 1] ! 0) - x ([particle 5 5 0 0, particle 5 5 1 1] ! 1))
            (y ([particle 5 5 0 0, particle 5 5 1 1] ! 0) - y ([particle 5 5 0 0, particle 5 5 1 1] ! 1))
       = 0
   \<and> (particle 5 5 0 0, particle 5 5 1 1, 0) \<in> set (computeEdges [particle 5 5 0 0, particle 5 5 1 1])
   \<and> baseOpacity LINK_DISTANCE = 0 \<and> baseOpacity 0 = 1"
  using edge_at_threshold_and_at_zero [of 0 1 "[particle 0 0 0 0, particle 60 80 0 0]"]
    edge_at_threshold_and_at_zero [of 0 1 "[particle 5 5 0 0, particle 5 5 1 1]"]
  by (simp add: particle_def hypot_60_80 hypot_0_0 LINK_DISTANCE_def)

section \<open>Properties of the color conversion\<close>

lemma parseInt16_rr: "parseInt16 ''rr'' = None"
  by (simp add: parseInt16_def isWhiteSpace_def stripSign_def stripPrefix_def hexDigitValue_def)

lemma parseInt16_ee: "parseInt16 ''ee'' = Some 238"
  by (simp add: parseInt16_def isWhiteSpace_def stripSign_def stripPrefix_def hexDigitValue_def)

lemma parseInt16_dd: "parseInt16 ''dd'' = Some 221"
  by (simp add: parseInt16_def isWhiteSpace_def stripSign_def stripPrefix_def hexDigitValue_def)

lemma hexToRgb_wellformed: "hexToRgb ''#3cd962'' = \<lparr>r = Some 60, g = Some 217, b = Some 98\<rparr>"
  by (simp add: hexToRgb_def parseInt16_def isWhiteSpace_def stripSign_def stripPrefix_def hexDigitValue_def)

lemma hexToRgb_short: "hexToRgb ''#fff'' = \<lparr>r = Some 255, g = Some 255, b = Some 255\<rparr>"
  by (simp add: hexToRgb_def parseInt16_def isWhiteSpace_def stripSign_def stripPrefix_def hexDigitValue_def)

lemma hexDigitValue_zero: "hexDigitValue CHR ''0'' = Some 0"
  by (simp add: hexDigitValue_def)

lemma parseInt16_noHex:
  assumes "\<forall>c \<in> set s. noHexChar c"
  shows "parseInt16 s = None"
proof (cases s)
  case Nil
  then show ?thesis
    by (simp add: parseInt16_def stripSign_def stripPrefix_def)
next
  case (Cons c cs)
  then have c: "noHexChar c"
    using assms by simp
  then have "c \<noteq> CHR ''0''"
    using hexDigitValue_zero by (auto simp: noHexChar_def)
  then have "stripPrefix (c # cs) = c # cs"
    by (simp add: stripPrefix_def split: list.split)
  moreover have "stripSign (dropWhile isWhiteSpace (c # cs)) = (1, c # cs)"
    using c by (simp add: noHexChar_def stripSign_def)
  moreover have "parseDigits None (c # cs) = None"
    using c by (simp add: noHexChar_def)
  ultimately show ?thesis
    using Cons by (simp add: parseInt16_def)
qed

text \<open>
  C9, as the code has it. The empty color string is converted to the neutral gray
  \<open>{r: 200, g: 200, b: 200}\<close>. A malformed string that is not empty gets no fallback:
  when none of its characters is a hexadecimal digit, white space, a sign or \<open>#\<close>,
  all three components are \<open>NaN\<close>.
\<close>

theorem hexToRgb_fallback_for_empty_only:
  "hexToRgb [] = gray
   \<and> (hex \<noteq> [] \<and> (\<forall>c \<in> set hex. noHexChar c) \<longrightarrow>
        hexToRgb hex = \<lparr>r = None, g = None, b = None\<rparr>)"
proof (intro conjI impI)
  show "hexToRgb [] = gray"
    by (simp add: hexToRgb_def gray_def)
next
  assume h: "hex \<noteq> [] \<and> (\<forall>c \<in> set hex. noHexChar c)"
  then have "CHR ''#'' \<notin> set hex"
    by (auto simp: noHexChar_def)
  then have same: "remove1 CHR ''#'' hex = hex"
    by (simp add: remove1_idem)
  have sub: "parseInt16 s = None" if "set s \<subseteq> set hex" for s
    using that h by (intro parseInt16_noHex) auto
  show "hexToRgb hex = \<lparr>r = None, g = None, b = None\<rparr>"
  proof (cases "length hex = 3")
    case True
    then have "parseInt16 [hex ! 0, hex ! 0] = None" "parseInt16 [hex ! 1, hex ! 1] = None"
      "parseInt16 [hex ! 2, hex ! 2] = None"
      by (simp_all add: sub)
    then show ?thesis
      using h True by (simp add: hexToRgb_def same)
  next
    case False
    have "parseInt16 (take 2 hex) = None" "parseInt16 (take 2 (drop 2 hex)) = None"
      "parseInt16 (take 2 (drop 4 hex)) = None"
      by (rule sub, meson set_take_subset set_drop_subset subset_trans)+
    then show ?thesis
      using h False by (simp add: hexToRgb_def same)
  qed
qed

theorem hexToRgb_fallback_for_empty_only_witness:
  "''xyz'' \<noteq> [] \<and> noHexChar CHR ''x'' \<and> noHexChar CHR ''y'' \<and> noHexChar CHR ''z''
   \<and> hexToRgb ''xyz'' = \<lparr>r = None, g = None, b = None\<rparr>
   \<and> hexToRgb ''xyz'' \<noteq> gray"
  using hexToRgb_fallback_for_empty_only [of "''xyz''"]
  by (simp add: noHexChar_def hexDigitValue_def isWhiteSpace_def gray_def)

text \<open>
  The malformed string \<open>red\<close> has three characters, so each is doubled and parsed:
  \<open>rr\<close> is \<open>NaN\<close>, \<open>ee\<close> is 238 and \<open>dd\<close> is 221.
\<close>

theorem hexToRgb_malformed_counterexample:
  "hexToRgb ''red'' = \<lparr>r = None, g = Some 238, b = Some 221\<rparr> \<and> hexToRgb ''red'' \<noteq> gray"
  by (simp add: hexToRgb_def gray_def parseInt16_rr parseInt16_ee parseInt16_dd)

section \<open>Properties of node generation\<close>

lemma generateNode_radius:
  assumes "0 \<le> rnd (6 * i)" and "rnd (6 * i) < 1"
  shows "radius (generateNode width height rnd i) = 1"
proof -
  have "NODE_RADIUS * (RADIUS_MIN_FACTOR + rnd (6 * i) * (RADIUS_MAX_FACTOR - RADIUS_MIN_FACTOR))
      = 0.4 + 0.4 * rnd (6 * i)"
    by (simp add: NODE_RADIUS_def RADIUS_MIN_FACTOR_def RADIUS_MAX_FACTOR_def algebra_simps)
  also have "\<dots> \<le> 1"
    using assms(2) by simp
  finally show ?thesis
    by (simp add: generateNode_def Let_def)
qed

lemma mouseRadius_one: "mouseRadius = 1"
  by (simp add: mouseRadius_def NODE_RADIUS_def)

text \<open>
  C10. With the constants as shipped (base radius 4, radius factors from 0.10 to 0.2,
  factor 0.15 for the pointer node) and \<open>Math.random\<close> returning values in \<open>[0, 1)\<close>,
  every node of the array a new graph starts with, the generated nodes and the pointer
  node, has radius exactly 1: the floor of 1 always wins over the drawn factor.
\<close>

theorem every_radius_is_one:
  assumes "\<forall>k. 0 \<le> rnd k \<and> rnd k < 1"
  shows "\<forall>n \<in> set (nodesOf (initGraph count width height rnd)). radius n = 1"
proof
  fix n
  assume "n \<in> set (nodesOf (initGraph count width height rnd))"
  then consider i where "i < count" "n = generateNode width height rnd i"
    | "n = newMouseNode width height"
    by (auto simp: nodesOf_def initGraph_def generateNodes_def)
  then show "radius n = 1"
  proof cases
    case 1
    then show ?thesis
      using assms by (simp add: generateNode_radius)
  next
    case 2
    then show ?thesis
      by (simp add: newMouseNode_def mouseRadius_one)
  qed
qed

theorem every_radius_is_one_witness:
  "length (nodesOf (initGraph 2 900 600 (\<lambda>k. 1 / 2))) = 3
   \<and> radius (nodesOf (initGraph 2 900 600 (\<lambda>k. 1 / 2)) ! 0) = 1
   \<and> radius (nodesOf (initGraph 2 900 600 (\<lambda>k. 1 / 2)) ! 1) = 1
   \<and> radius (nodesOf (initGraph 2 900 600 (\<lambda>k. 1 / 2)) ! 2) = 1
   \<and> id_n (nodesOf (initGraph 2 900 600 (\<lambda>k. 1 / 2)) ! 2) = - 1"
proof -
  have rnd: "\<forall>k::nat. (0::real) \<le> 1 / 2 \<and> (1::real) / 2 < 1"
    by simp
  have len: "length (nodesOf (initGraph 2 900 600 (\<lambda>k. 1 / 2))) = 3"
    by (simp add: nodesOf_def initGraph_def generateNodes_def)
  have "\<forall>n \<in> set (nodesOf (initGraph 2 900 600 (\<lambda>k. 1 / 2))). radius n = 1"
    by (rule every_radius_is_one [of "\<lambda>k. 1 / 2" 2 900 600, OF rnd])
  then have "\<forall>i < 3. radius (nodesOf (initGraph 2 900 600 (\<lambda>k. 1 / 2)) ! i) = 1"
    using len by (metis nth_mem)
  moreover have "id_n (nodesOf (initGraph 2 900 600 (\<lambda>k. 1 / 2)) ! 2) = - 1"
    by (simp add: nodesOf_def initGraph_def generateNodes_def newMouseNode_def nth_append)
  ultimately show ?thesis
    using len by simp
qed

end
